theory Spec2Isabelle
  imports Complex_Main "HOL-Library.Finite_Map"
begin

section \<open>JavaScript values\<close>

text \<open>
  The functions of \<^verbatim>\<open>nodes/UnitTest/GenericFunctions.ts\<close> read loosely typed parameter
  bags, build object literals and hand back whatever the host evaluated or parsed, so the
  values they move around are modelled as JavaScript values. An object is a finite map
  from property names to values: two objects with the same properties are equal, whatever
  the order in which the properties were written. A string is the list of its UTF-16 code
  units, one character for each, which covers the strings whose code units are below 256.
\<close>

datatype JsValue =
    Undefined
  | Null
  | Bool bool
  | Num real
  | Str string
  | Arr "JsValue list"
  | Obj "(string, JsValue) fmap"

type_synonym IDataObject = "(string, JsValue) fmap"

text \<open>Truthiness, as \<^verbatim>\<open>if (v)\<close> and \<^verbatim>\<open>!v\<close> test it.\<close>

fun truthy :: "JsValue \<Rightarrow> bool" where
  "truthy Undefined = False"
| "truthy Null = False"
| "truthy (Bool b) = b"
| "truthy (Num x) = (x \<noteq> 0)"
| "truthy (Str s) = (s \<noteq> [])"
| "truthy (Arr xs) = True"
| "truthy (Obj obj) = True"

text \<open>\<^verbatim>\<open>obj.k\<close> on an object: the property's value, \<^verbatim>\<open>undefined\<close> when it is absent.\<close>

definition property :: "IDataObject \<Rightarrow> string \<Rightarrow> JsValue" where
  "property obj k = (case fmlookup obj k of None \<Rightarrow> Undefined | Some v \<Rightarrow> v)"

text \<open>
  \<^verbatim>\<open>v?.k\<close> for the property names this file reads that way (\<^verbatim>\<open>isCleanUpBranchEnabled\<close>,
  \<^verbatim>\<open>isFailBranchEnabled\<close>, \<^verbatim>\<open>testId\<close>): \<^verbatim>\<open>undefined\<close> on \<^verbatim>\<open>undefined\<close> and \<^verbatim>\<open>null\<close> by the
  optional chaining, and on a primitive or an array because none of them has such a
  property.
\<close>

fun optChain :: "JsValue \<Rightarrow> string \<Rightarrow> JsValue" where
  "optChain (Obj obj) k = property obj k"
| "optChain v k = Undefined"

text \<open>
  \<^verbatim>\<open>obj[key] = value\<close> with a string value on a plain object: an own property is written,
  except for the key \<^verbatim>\<open>__proto__\<close>, whose inherited setter ignores a value that is neither an
  object nor \<^verbatim>\<open>null\<close>.
\<close>

definition assign :: "IDataObject \<Rightarrow> string \<Rightarrow> string \<Rightarrow> IDataObject" where
  "assign obj k v = (if k = ''__proto__'' then obj else fmupd k (Str v) obj)"

text \<open>Decimal index names, for the properties of arrays and strings.\<close>

fun string_of_nat :: "nat \<Rightarrow> string" where
  "string_of_nat n =
     (if n < 10 then [''0123456789'' ! n]
      else string_of_nat (n div 10) @ [''0123456789'' ! (n mod 10)])"

declare string_of_nat.simps [simp del]

text \<open>
  \<^verbatim>\<open>{...v}\<close>: the own enumerable properties that an object spread copies. An object gives
  its properties, an array and a string their indexed elements, every other value nothing.
\<close>

fun spread :: "JsValue \<Rightarrow> IDataObject" where
  "spread (Obj obj) = obj"
| "spread (Arr xs) = fmap_of_list (zip (map string_of_nat [0..<length xs]) xs)"
| "spread (Str s) = fmap_of_list (zip (map string_of_nat [0..<length s]) (map (\<lambda>c. Str [c]) s))"
| "spread v = fmempty"

text \<open>\<^verbatim>\<open>a || b\<close> on an optional string: \<^verbatim>\<open>b\<close> when \<^verbatim>\<open>a\<close> is \<^verbatim>\<open>undefined\<close> or empty.\<close>

definition orElse :: "string option \<Rightarrow> string \<Rightarrow> string" where
  "orElse a b = (case a of None \<Rightarrow> b | Some s \<Rightarrow> if s = [] then b else s)"

section \<open>Errors\<close>

record INode =
  name :: string
  type :: string

text \<open>
  What a call can throw: the \<^verbatim>\<open>SyntaxError\<close> of \<^verbatim>\<open>JSON.parse\<close>, a failure inside the host's
  expression evaluation, and the \<^verbatim>\<open>NodeOperationError\<close> built from a node, a message and
  the \<^verbatim>\<open>itemIndex\<close> option.
\<close>

datatype error =
    SyntaxError string
  | ExpressionError string
  | NodeOperationError INode string int

section \<open>Branch topology\<close>

record Branch =
  type :: string
  displayName :: "string option"
  category :: "string option"

text \<open>
  Modelled from the spec: the \<^verbatim>\<open>Main\<close> member of the enum \<^verbatim>\<open>NodeConnectionType\<close>, which is
  imported from \<^verbatim>\<open>n8n-workflow\<close> and names the main connection kind.
\<close>

definition NodeConnectionType_Main :: string where
  "NodeConnectionType_Main = ''main''"

definition nodeInputs :: "IDataObject \<Rightarrow> Branch list" where
  "nodeInputs parameters =
     (let operation = property parameters ''operation'' in
      if operation = Str ''booleanInputComparison'' then
        (let inputBranches = [''pass'', ''fail''];
             inputArray = map (\<lambda>branch.
               \<lparr>type = NodeConnectionType_Main, displayName = Some branch, category = None\<rparr>)
               inputBranches
         in inputArray)
      else
        [\<lparr>type = NodeConnectionType_Main, displayName = None, category = None\<rparr>])"

definition nodeOutputs :: "IDataObject \<Rightarrow> bool \<Rightarrow> bool \<Rightarrow> Branch list" where
  "nodeOutputs parameters cleanUpBranchDefault failBranchDefault =
     (let cleanUpBranchInput =
            optChain (property parameters ''additionalFields'') ''isCleanUpBranchEnabled'';
          failBranchInput =
            optChain (property parameters ''additionalFields'') ''isFailBranchEnabled'';
          isCleanUpBranchEnabled =
            (if cleanUpBranchInput \<noteq> Undefined then cleanUpBranchInput
             else Bool cleanUpBranchDefault);
          isFailBranchEnabled =
            (if failBranchInput \<noteq> Undefined then failBranchInput
             else Bool failBranchDefault);
          outputBranchArray = [];
          outputBranchArray =
            (if truthy isCleanUpBranchEnabled then
               outputBranchArray @
                 [\<lparr>type = NodeConnectionType_Main, displayName = Some ''Clean Up'',
                   category = None\<rparr>]
             else outputBranchArray);
          outputBranchArray =
            (if truthy isFailBranchEnabled then
               outputBranchArray @
                 [\<lparr>type = NodeConnectionType_Main, displayName = Some ''On Fail'',
                   category = Some ''error''\<rparr>]
             else outputBranchArray)
      in outputBranchArray)"

section \<open>Test-data materializers\<close>

text \<open>
  \<^verbatim>\<open>RawKeyValueInputItems\<close>. The declared type gives \<^verbatim>\<open>testRun\<close> the one property
  \<^verbatim>\<open>keyValueData\<close>, a list of key/value rows; the function also provides for a \<^verbatim>\<open>testRun\<close>
  with no property at all (\<^verbatim>\<open>{}\<close>), which is \<open>None\<close> here.
\<close>

record TestRun =
  keyValueData :: "(string \<times> string) list option"

record RawKeyValueInputItems =
  testRunName :: "string option"
  testRun :: TestRun

record RawJsonInput =
  testRunName :: "string option"
  jsonTestRun :: string

record TriggerReturnData =
  json :: IDataObject

text \<open>\<^verbatim>\<open>Object.keys(item.testRun)\<close>.\<close>

definition Object_keys :: "TestRun \<Rightarrow> string list" where
  "Object_keys tr = (case keyValueData tr of None \<Rightarrow> [] | Some rows \<Rightarrow> [''keyValueData''])"

text \<open>The object literal assigned to \<^verbatim>\<open>unitTestMetadata\<close> in both materializers.\<close>

definition UnitTestMetaData :: "string \<Rightarrow> string \<Rightarrow> JsValue \<Rightarrow> JsValue" where
  "UnitTestMetaData testId runName triggerInputData =
     Obj (fmap_of_list
       [(''testId'', Str testId),
        (''testRunName'', Str runName),
        (''triggerInputData'', triggerInputData)])"

text \<open>
  The callback that \<^verbatim>\<open>getReturnNodeJsonFromKeyValue\<close> maps over its rows. After the guard on
  \<^verbatim>\<open>Object.keys\<close> the rows are present, so the \<open>None\<close> case of the \<^verbatim>\<open>forEach\<close> is never reached.
\<close>

definition keyValueItem :: "string \<Rightarrow> RawKeyValueInputItems \<Rightarrow> TriggerReturnData" where
  "keyValueItem testId item =
     (let jsonObject = fmempty in
      if length (Object_keys (testRun item)) = 0 then \<lparr>json = fmempty\<rparr>
      else
        (let jsonObject =
               foldl (\<lambda>jsonObject (key, val). assign jsonObject key val) jsonObject
                 (case keyValueData (testRun item) of None \<Rightarrow> [] | Some rows \<Rightarrow> rows);
             unitTestMetadata =
               UnitTestMetaData testId
                 (orElse (RawKeyValueInputItems.testRunName item) ''unnamed'')
                 (Obj jsonObject)
         in \<lparr>json = fmupd ''_unitTest'' unitTestMetadata (spread (Obj jsonObject))\<rparr>))"

definition getReturnNodeJsonFromKeyValue ::
  "RawKeyValueInputItems list option \<Rightarrow> string \<Rightarrow> TriggerReturnData list" where
  "getReturnNodeJsonFromKeyValue rawKeyValueData testId =
     (case rawKeyValueData of
        None \<Rightarrow> []
      | Some rows \<Rightarrow> map (keyValueItem testId) rows)"

text \<open>
  The callback of \<^verbatim>\<open>getReturnNodeJsonFromJson\<close>. \<^verbatim>\<open>JSON.parse\<close> belongs to the language, not to
  this file, and is a parameter: it returns the parsed value or the error it throws. The
  \<^verbatim>\<open>catch\<close> block throws the error it caught.
\<close>

definition jsonItem ::
  "(string \<Rightarrow> error + JsValue) \<Rightarrow> string \<Rightarrow> RawJsonInput \<Rightarrow> error + TriggerReturnData" where
  "jsonItem JSON_parse testId item =
     (case JSON_parse (jsonTestRun item) of
        Inl e \<Rightarrow> Inl e
      | Inr parsedJson \<Rightarrow>
          (let unitTestMetadata =
                 UnitTestMetaData testId (orElse (testRunName item) ''unnamed'') parsedJson
           in Inr \<lparr>json = fmupd ''_unitTest'' unitTestMetadata (spread parsedJson)\<rparr>))"

text \<open>
  \<^verbatim>\<open>Array.prototype.map\<close> with a callback that may throw: the entries are visited in order
  and the first error ends the call.
\<close>

fun mapThrowing :: "('a \<Rightarrow> error + 'b) \<Rightarrow> 'a list \<Rightarrow> error + 'b list" where
  "mapThrowing f [] = Inr []"
| "mapThrowing f (x # xs) =
     (case f x of
        Inl e \<Rightarrow> Inl e
      | Inr y \<Rightarrow> (case mapThrowing f xs of Inl e \<Rightarrow> Inl e | Inr ys \<Rightarrow> Inr (y # ys)))"

definition getReturnNodeJsonFromJson ::
  "(string \<Rightarrow> error + JsValue) \<Rightarrow> RawJsonInput list option \<Rightarrow> string
     \<Rightarrow> error + TriggerReturnData list" where
  "getReturnNodeJsonFromJson JSON_parse rawJsonInputData testId =
     (case rawJsonInputData of
        None \<Rightarrow> Inr []
      | Some entries \<Rightarrow> mapThrowing (jsonItem JSON_parse testId) entries)"

section \<open>Trigger correlator\<close>

text \<open>
  The three host services that \<^verbatim>\<open>getTriggerTestMetaData\<close> calls on \<^verbatim>\<open>IExecuteFunctions\<close>.
  \<^verbatim>\<open>evaluateExpression\<close> returns the value of the expression or the error it throws.
\<close>

record IExecuteFunctions =
  getNode :: INode
  getParentNodes :: "string \<Rightarrow> INode list"
  evaluateExpression :: "string \<Rightarrow> int \<Rightarrow> error + JsValue"

text \<open>The template literal \<^verbatim>\<open>`{{ $('${triggerNode.name}').item.json._unitTest }}`\<close>.\<close>

definition unitTestExpression :: "INode \<Rightarrow> string" where
  "unitTestExpression triggerNode =
     ''{{ $('' @ [CHR 0x27] @ name triggerNode @ [CHR 0x27] @ '').item.json._unitTest }}''"

text \<open>
  The \<^verbatim>\<open>for\<close> loop over the trigger nodes, on the two variables it assigns:
  \<^verbatim>\<open>triggerName\<close> (\<open>None\<close> while unassigned) and \<^verbatim>\<open>triggerMetaData\<close>. An evaluation that
  throws leaves both as they were.
\<close>

fun scanTriggers ::
  "IExecuteFunctions \<Rightarrow> string \<Rightarrow> int \<Rightarrow> INode list \<Rightarrow> string option \<times> JsValue
     \<Rightarrow> string option \<times> JsValue" where
  "scanTriggers n testId itemIndex [] (triggerName, triggerMetaData) =
     (triggerName, triggerMetaData)"
| "scanTriggers n testId itemIndex (triggerNode # rest) (triggerName, triggerMetaData) =
     (case evaluateExpression n (unitTestExpression triggerNode) itemIndex of
        Inl e \<Rightarrow> scanTriggers n testId itemIndex rest (triggerName, triggerMetaData)
      | Inr v \<Rightarrow>
          (if optChain v ''testId'' = Str testId
           then scanTriggers n testId itemIndex rest (Some (name triggerNode), v)
           else scanTriggers n testId itemIndex rest (triggerName, v)))"

definition testTriggerNodes :: "IExecuteFunctions \<Rightarrow> INode list" where
  "testTriggerNodes n =
     filter (\<lambda>node. INode.type node = ''n8n-nodes-base.unitTestTrigger'')
       (getParentNodes n (name (getNode n)))"

definition getTriggerTestMetaData ::
  "IExecuteFunctions \<Rightarrow> string \<Rightarrow> int \<Rightarrow> error + JsValue" where
  "getTriggerTestMetaData n testId itemIndex =
     (case scanTriggers n testId itemIndex (testTriggerNodes n) (None, Undefined) of
        (triggerName, triggerMetaData) \<Rightarrow>
          if triggerName = None \<or> \<not> truthy triggerMetaData then
            Inl (NodeOperationError (getNode n)
                   ''No Test Trigger Node with matching ID found'' itemIndex)
          else Inr triggerMetaData)"

text \<open>
  Whether the envelope evaluated for an ancestor trigger carries the target id: the test
  \<^verbatim>\<open>triggerMetaData?.testId === testId\<close> of the loop, false when the evaluation throws.
\<close>

definition envelopeMatches :: "IExecuteFunctions \<Rightarrow> string \<Rightarrow> int \<Rightarrow> INode \<Rightarrow> bool" where
  "envelopeMatches n testId itemIndex triggerNode =
     (case evaluateExpression n (unitTestExpression triggerNode) itemIndex of
        Inl e \<Rightarrow> False
      | Inr v \<Rightarrow> optChain v ''testId'' = Str testId)"

section \<open>The truth table of the output toggles\<close>

text \<open>
  A toggle as the specification describes it: explicitly set to a truth value, or unset.
  \<open>toggle\<close> is the value the parameter bag then holds, \<open>resolveToggle\<close> the reading
  "explicit true means enabled, explicit false means disabled, unset means the supplied
  default".
\<close>

definition toggle :: "bool option \<Rightarrow> JsValue" where
  "toggle t = (case t of None \<Rightarrow> Undefined | Some b \<Rightarrow> Bool b)"

definition resolveToggle :: "bool option \<Rightarrow> bool \<Rightarrow> bool" where
  "resolveToggle t d = (case t of None \<Rightarrow> d | Some b \<Rightarrow> b)"

section \<open>Example inputs\<close>

text \<open>
  A node \<^verbatim>\<open>Check\<close> below two unit-test triggers. In \<open>twoTriggers\<close> both triggers have an
  output item: the envelope of \<^verbatim>\<open>A\<close> has test id \<^verbatim>\<open>T\<close>, that of \<^verbatim>\<open>B\<close> has test id \<^verbatim>\<open>U\<close>. In
  \<open>secondWithoutEnvelope\<close> the item of \<^verbatim>\<open>B\<close> has no \<^verbatim>\<open>_unitTest\<close> property. In
  \<open>noTriggerRan\<close> every evaluation throws.
\<close>

definition triggerA :: INode where
  "triggerA = \<lparr>name = ''A'', type = ''n8n-nodes-base.unitTestTrigger''\<rparr>"

definition triggerB :: INode where
  "triggerB = \<lparr>name = ''B'', type = ''n8n-nodes-base.unitTestTrigger''\<rparr>"

definition twoTriggers :: IExecuteFunctions where
  "twoTriggers =
     \<lparr>getNode = \<lparr>name = ''Check'', type = ''n8n-nodes-base.unitTest''\<rparr>,
      getParentNodes = (\<lambda>nodeName. [triggerA, triggerB]),
      evaluateExpression = (\<lambda>expression itemIndex.
        if expression = unitTestExpression triggerA
          then Inr (Obj (fmap_of_list [(''testId'', Str ''T'')]))
        else if expression = unitTestExpression triggerB
          then Inr (Obj (fmap_of_list [(''testId'', Str ''U'')]))
        else Inl (ExpressionError ''no execution data''))\<rparr>"

definition secondWithoutEnvelope :: IExecuteFunctions where
  "secondWithoutEnvelope =
     \<lparr>getNode = \<lparr>name = ''Check'', type = ''n8n-nodes-base.unitTest''\<rparr>,
      getParentNodes = (\<lambda>nodeName. [triggerA, triggerB]),
      evaluateExpression = (\<lambda>expression itemIndex.
        if expression = unitTestExpression triggerA
          then Inr (Obj (fmap_of_list [(''testId'', Str ''T'')]))
        else if expression = unitTestExpression triggerB
          then Inr Undefined
        else Inl (ExpressionError ''no execution data''))\<rparr>"

definition noTriggerRan :: IExecuteFunctions where
  "noTriggerRan =
     \<lparr>getNode = \<lparr>name = ''Check'', type = ''n8n-nodes-base.unitTest''\<rparr>,
      getParentNodes = (\<lambda>nodeName. [triggerA, triggerB]),
      evaluateExpression = (\<lambda>expression itemIndex.
        Inl (ExpressionError ''no execution data''))\<rparr>"

text \<open>
  A stand-in for \<^verbatim>\<open>JSON.parse\<close> on two texts: it parses \<^verbatim>\<open>{"a":1}\<close> and rejects everything
  else.
\<close>

definition exampleParse :: "string \<Rightarrow> error + JsValue" where
  "exampleParse s =
     (if s = ''{\"a\":1}'' then Inr (Obj (fmap_of_list [(''a'', Num 1)]))
      else Inl (SyntaxError ''Unexpected token''))"

section \<open>Auxiliary facts\<close>

lemma fmupd_twist: "a \<noteq> b \<Longrightarrow> fmupd a x (fmupd b y m) = fmupd b y (fmupd a x m)"
  by (rule fmap_ext) auto

lemma unitTest_testRunName:
  "optChain (property (fmupd ''_unitTest'' (UnitTestMetaData testId runName v) obj) ''_unitTest'')
     ''testRunName'' = Str runName"
  by (simp add: property_def UnitTestMetaData_def)

lemma mapThrowing_first_error:
  "find (\<lambda>x. isl (f x)) xs = Some x \<Longrightarrow> mapThrowing f xs = Inl (projl (f x))"
  by (induction xs) (auto split: sum.splits if_splits)

lemma mapThrowing_update:
  "i < length xs \<Longrightarrow> f y = f (xs ! i) \<Longrightarrow> mapThrowing f (xs[i := y]) = mapThrowing f xs"
  by (induction xs arbitrary: i) (auto split: sum.splits nat.splits)

lemma mapThrowing_Inr_nth:
  "mapThrowing f xs = Inr ys \<Longrightarrow> i < length xs \<Longrightarrow> f (xs ! i) = Inr (ys ! i)"
  by (induction xs arbitrary: ys i) (auto split: sum.splits simp: nth_Cons split: nat.splits)

lemma mapThrowing_all_Inr:
  "\<forall>x\<in>set xs. \<not> isl (f x) \<Longrightarrow> \<exists>ys. mapThrowing f xs = Inr ys \<and> length ys = length xs"
proof (induction xs)
  case Nil
  then show ?case by simp
next
  case (Cons x xs)
  then obtain ys where ys: "mapThrowing f xs = Inr ys" "length ys = length xs"
    by auto
  from Cons.prems obtain y where "f x = Inr y"
    by (cases "f x") auto
  with ys show ?case by simp
qed

lemma jsonItem_error:
  "JSON_parse (jsonTestRun item) = Inl e \<Longrightarrow> jsonItem JSON_parse testId item = Inl e"
  by (simp add: jsonItem_def)

lemma isl_jsonItem:
  "isl (jsonItem JSON_parse testId item) = isl (JSON_parse (jsonTestRun item))"
  by (simp add: jsonItem_def Let_def split: sum.splits)

lemma keyValueItem_empty_name:
  "RawKeyValueInputItems.testRunName item = Some [] \<Longrightarrow>
     keyValueItem testId (item\<lparr>RawKeyValueInputItems.testRunName := None\<rparr>) =
     keyValueItem testId item"
  by (simp add: keyValueItem_def orElse_def)

lemma jsonItem_empty_name:
  "testRunName item = Some [] \<Longrightarrow>
     jsonItem JSON_parse testId (item\<lparr>testRunName := None\<rparr>) = jsonItem JSON_parse testId item"
  by (simp add: jsonItem_def orElse_def split: sum.splits)

text \<open>Without a matching envelope the loop never assigns \<^verbatim>\<open>triggerName\<close>.\<close>

lemma scanTriggers_no_match:
  "\<forall>triggerNode\<in>set nodes. \<not> envelopeMatches n testId itemIndex triggerNode \<Longrightarrow>
     fst (scanTriggers n testId itemIndex nodes (triggerName, triggerMetaData)) = triggerName"
  by (induction nodes arbitrary: triggerMetaData)
    (auto simp: envelopeMatches_def split: sum.splits)

text \<open>
  \<^verbatim>\<open>nodeOutputs\<close> on any parameter bag: a toggle that is not \<^verbatim>\<open>undefined\<close> counts by its
  truthiness, whatever its type.
\<close>

lemma nodeOutputs_truthy:
  "nodeOutputs parameters cD fD =
     (let ci = optChain (property parameters ''additionalFields'') ''isCleanUpBranchEnabled'';
          fi = optChain (property parameters ''additionalFields'') ''isFailBranchEnabled''
      in (if truthy (if ci \<noteq> Undefined then ci else Bool cD)
          then [\<lparr>type = NodeConnectionType_Main, displayName = Some ''Clean Up'',
                 category = None\<rparr>]
          else []) @
         (if truthy (if fi \<noteq> Undefined then fi else Bool fD)
          then [\<lparr>type = NodeConnectionType_Main, displayName = Some ''On Fail'',
                 category = Some ''error''\<rparr>]
          else []))"
  by (simp add: nodeOutputs_def Let_def)

lemma twoTriggers_nodes: "testTriggerNodes twoTriggers = [triggerA, triggerB]"
  by (simp add: testTriggerNodes_def twoTriggers_def triggerA_def triggerB_def)

lemma secondWithoutEnvelope_nodes:
  "testTriggerNodes secondWithoutEnvelope = [triggerA, triggerB]"
  by (simp add: testTriggerNodes_def secondWithoutEnvelope_def triggerA_def triggerB_def)

lemma noTriggerRan_nodes: "testTriggerNodes noTriggerRan = [triggerA, triggerB]"
  by (simp add: testTriggerNodes_def noTriggerRan_def triggerA_def triggerB_def)

lemma expression_A_B: "unitTestExpression triggerB \<noteq> unitTestExpression triggerA"
  by (simp add: unitTestExpression_def triggerA_def triggerB_def)

lemma twoTriggers_A:
  "evaluateExpression twoTriggers (unitTestExpression triggerA) itemIndex =
     Inr (Obj (fmap_of_list [(''testId'', Str ''T'')]))"
  by (simp add: twoTriggers_def)

lemma twoTriggers_B:
  "evaluateExpression twoTriggers (unitTestExpression triggerB) itemIndex =
     Inr (Obj (fmap_of_list [(''testId'', Str ''U'')]))"
  by (simp add: twoTriggers_def expression_A_B)

lemma secondWithoutEnvelope_A:
  "evaluateExpression secondWithoutEnvelope (unitTestExpression triggerA) itemIndex =
     Inr (Obj (fmap_of_list [(''testId'', Str ''T'')]))"
  by (simp add: secondWithoutEnvelope_def)

lemma secondWithoutEnvelope_B:
  "evaluateExpression secondWithoutEnvelope (unitTestExpression triggerB) itemIndex =
     Inr Undefined"
  by (simp add: secondWithoutEnvelope_def expression_A_B)

section \<open>Branch topology: the claims\<close>

text \<open>
  Claim C5. For every parameter bag, \<^verbatim>\<open>nodeInputs\<close> returns exactly two Main-type input
  branches named \<^verbatim>\<open>pass\<close> then \<^verbatim>\<open>fail\<close>, in that order, when the \<^verbatim>\<open>operation\<close> parameter equals
  \<^verbatim>\<open>booleanInputComparison\<close>, and exactly one Main-type input branch with no display name for
  every other value of \<^verbatim>\<open>operation\<close>, an absent one included.
\<close>

theorem nodeInputs_branches:
  "(property parameters ''operation'' = Str ''booleanInputComparison'' \<longrightarrow>
      nodeInputs parameters =
        [\<lparr>type = NodeConnectionType_Main, displayName = Some ''pass'', category = None\<rparr>,
         \<lparr>type = NodeConnectionType_Main, displayName = Some ''fail'', category = None\<rparr>]) \<and>
   (property parameters ''operation'' \<noteq> Str ''booleanInputComparison'' \<longrightarrow>
      nodeInputs parameters =
        [\<lparr>type = NodeConnectionType_Main, displayName = None, category = None\<rparr>])"
  by (simp add: nodeInputs_def)

text \<open>
  The theorem at three parameter bags: the boolean comparison, another operation, and a
  bag with no \<^verbatim>\<open>operation\<close> at all.
\<close>

theorem nodeInputs_branches_witness:
  "property (fmap_of_list [(''operation'', Str ''booleanInputComparison'')]) ''operation'' =
     Str ''booleanInputComparison'' \<and>
   nodeInputs (fmap_of_list [(''operation'', Str ''booleanInputComparison'')]) =
     [\<lparr>type = NodeConnectionType_Main, displayName = Some ''pass'', category = None\<rparr>,
      \<lparr>type = NodeConnectionType_Main, displayName = Some ''fail'', category = None\<rparr>] \<and>
   property (fmap_of_list [(''operation'', Str ''assertEquals'')]) ''operation'' \<noteq>
     Str ''booleanInputComparison'' \<and>
   nodeInputs (fmap_of_list [(''operation'', Str ''assertEquals'')]) =
     [\<lparr>type = NodeConnectionType_Main, displayName = None, category = None\<rparr>] \<and>
   property fmempty ''operation'' \<noteq> Str ''booleanInputComparison'' \<and>
   nodeInputs fmempty =
     [\<lparr>type = NodeConnectionType_Main, displayName = None, category = None\<rparr>]"
  using nodeInputs_branches [of "fmap_of_list [(''operation'', Str ''booleanInputComparison'')]"]
    nodeInputs_branches [of "fmap_of_list [(''operation'', Str ''assertEquals'')]"]
    nodeInputs_branches [of fmempty]
  by (simp add: property_def)

text \<open>
  Claim C4. For every parameter bag whose two toggles are each explicitly true, explicitly
  false or unset, and for every pair of defaults, \<^verbatim>\<open>nodeOutputs\<close> returns the branch list
  of the truth table: a toggle resolves to its explicit value, or to the supplied default
  when unset; the \<^verbatim>\<open>Clean Up\<close> branch comes first when its toggle resolves to true, the
  \<^verbatim>\<open>On Fail\<close> branch, of category \<^verbatim>\<open>error\<close>, second when its toggle resolves to true, and
  there is no other branch.
\<close>

theorem nodeOutputs_truth_table:
  assumes "optChain (property parameters ''additionalFields'') ''isCleanUpBranchEnabled'' =
             toggle cleanUp"
      and "optChain (property parameters ''additionalFields'') ''isFailBranchEnabled'' =
             toggle failBranch"
  shows "nodeOutputs parameters cleanUpBranchDefault failBranchDefault =
     (if resolveToggle cleanUp cleanUpBranchDefault
      then [\<lparr>type = NodeConnectionType_Main, displayName = Some ''Clean Up'',
             category = None\<rparr>]
      else []) @
     (if resolveToggle failBranch failBranchDefault
      then [\<lparr>type = NodeConnectionType_Main, displayName = Some ''On Fail'',
             category = Some ''error''\<rparr>]
      else [])"
  using assms
  by (simp add: nodeOutputs_truthy toggle_def resolveToggle_def split: option.splits)

text \<open>
  The theorem at a bag that sets the clean-up toggle to true and leaves the fail toggle
  unset, with the defaults of the node (false and true): both branches, in order. And at
  a bag with no \<^verbatim>\<open>additionalFields\<close>, where both toggles take their defaults.
\<close>

theorem nodeOutputs_truth_table_witness:
  "optChain (property (fmap_of_list [(''additionalFields'',
       Obj (fmap_of_list [(''isCleanUpBranchEnabled'', Bool True)]))]) ''additionalFields'')
     ''isCleanUpBranchEnabled'' = toggle (Some True) \<and>
   optChain (property (fmap_of_list [(''additionalFields'',
       Obj (fmap_of_list [(''isCleanUpBranchEnabled'', Bool True)]))]) ''additionalFields'')
     ''isFailBranchEnabled'' = toggle None \<and>
   nodeOutputs (fmap_of_list [(''additionalFields'',
       Obj (fmap_of_list [(''isCleanUpBranchEnabled'', Bool True)]))]) False True =
     [\<lparr>type = NodeConnectionType_Main, displayName = Some ''Clean Up'', category = None\<rparr>,
      \<lparr>type = NodeConnectionType_Main, displayName = Some ''On Fail'',
        category = Some ''error''\<rparr>] \<and>
   optChain (property fmempty ''additionalFields'') ''isCleanUpBranchEnabled'' = toggle None \<and>
   optChain (property fmempty ''additionalFields'') ''isFailBranchEnabled'' = toggle None \<and>
   nodeOutputs fmempty False True =
     [\<lparr>type = NodeConnectionType_Main, displayName = Some ''On Fail'',
        category = Some ''error''\<rparr>]"
  using nodeOutputs_truth_table [of "fmap_of_list [(''additionalFields'',
       Obj (fmap_of_list [(''isCleanUpBranchEnabled'', Bool True)]))]" "Some True" None
       False True]
    nodeOutputs_truth_table [of fmempty None None False True]
  by (simp add: property_def toggle_def resolveToggle_def)

section \<open>Test-data materializers: the claims\<close>

text \<open>
  Claim C9. Both materializers, given \<^verbatim>\<open>undefined\<close> as their input list, return the empty
  sequence rather than failing, for every test id.
\<close>

theorem materializers_undefined_input:
  "getReturnNodeJsonFromKeyValue None testId = [] \<and>
   getReturnNodeJsonFromJson JSON_parse None testId = Inr []"
  by (simp add: getReturnNodeJsonFromKeyValue_def getReturnNodeJsonFromJson_def)

text \<open>
  Claim C7. The key/value materializer applied to the single row
  \<^verbatim>\<open>[{testRunName:"A", testRun:{keyValueData:[{key:"x",value:"1"}]}}]\<close> with test id \<^verbatim>\<open>T1\<close>
  returns exactly one item, equal to
  \<^verbatim>\<open>{json:{x:"1", _unitTest:{testId:"T1", testRunName:"A", triggerInputData:{x:"1"}}}}\<close>.
\<close>

theorem keyValue_example:
  "getReturnNodeJsonFromKeyValue
     (Some [\<lparr>RawKeyValueInputItems.testRunName = Some ''A'',
              testRun = \<lparr>keyValueData = Some [(''x'', ''1'')]\<rparr>\<rparr>]) ''T1'' =
   [\<lparr>json = fmap_of_list
       [(''x'', Str ''1''),
        (''_unitTest'', Obj (fmap_of_list
           [(''testId'', Str ''T1''),
            (''testRunName'', Str ''A''),
            (''triggerInputData'', Obj (fmap_of_list [(''x'', Str ''1'')]))]))]\<rparr>]"
  by (simp add: getReturnNodeJsonFromKeyValue_def keyValueItem_def Object_keys_def assign_def
      UnitTestMetaData_def orElse_def Let_def fmupd_twist)

text \<open>
  Claim C2, as stated, fails. A test run whose \<^verbatim>\<open>keyValueData\<close> is the empty list has no rows,
  but its \<^verbatim>\<open>testRun\<close> object has a key, so the guard \<^verbatim>\<open>Object.keys(item.testRun).length === 0\<close>
  does not fire: the item carries the \<^verbatim>\<open>_unitTest\<close> envelope and differs from \<^verbatim>\<open>{json:{}}\<close>.
\<close>

theorem keyValue_empty_rows_counterexample:
  "(case keyValueData (testRun \<lparr>RawKeyValueInputItems.testRunName = Some ''A'',
        testRun = \<lparr>keyValueData = Some []\<rparr>\<rparr>) of None \<Rightarrow> [] | Some rows \<Rightarrow> rows) = [] \<and>
   getReturnNodeJsonFromKeyValue
     (Some [\<lparr>RawKeyValueInputItems.testRunName = Some ''A'',
              testRun = \<lparr>keyValueData = Some []\<rparr>\<rparr>]) ''T1'' \<noteq> [\<lparr>json = fmempty\<rparr>] \<and>
   property (json (getReturnNodeJsonFromKeyValue
     (Some [\<lparr>RawKeyValueInputItems.testRunName = Some ''A'',
              testRun = \<lparr>keyValueData = Some []\<rparr>\<rparr>]) ''T1'' ! 0)) ''_unitTest'' =
     UnitTestMetaData ''T1'' ''A'' (Obj fmempty)"
  by (simp add: getReturnNodeJsonFromKeyValue_def keyValueItem_def Object_keys_def
      orElse_def Let_def property_def)

text \<open>
  Claim C2, amended. For every test run entry whose \<^verbatim>\<open>testRun\<close> object has no property at all
  (no \<^verbatim>\<open>keyValueData\<close>), the key/value materializer emits for that entry exactly the item
  \<^verbatim>\<open>{json:{}}\<close>, with no \<^verbatim>\<open>_unitTest\<close> envelope. For an entry whose \<^verbatim>\<open>keyValueData\<close> is present and
  empty it emits the item whose \<^verbatim>\<open>json\<close> holds the \<^verbatim>\<open>_unitTest\<close> envelope alone, with the test id,
  the run name (or \<^verbatim>\<open>unnamed\<close>) and an empty \<^verbatim>\<open>triggerInputData\<close>.
\<close>

theorem keyValue_empty_testRun:
  assumes "i < length rows"
  shows "(keyValueData (testRun (rows ! i)) = None \<longrightarrow>
            getReturnNodeJsonFromKeyValue (Some rows) testId ! i = \<lparr>json = fmempty\<rparr> \<and>
            property (json (getReturnNodeJsonFromKeyValue (Some rows) testId ! i)) ''_unitTest'' =
              Undefined) \<and>
         (keyValueData (testRun (rows ! i)) = Some [] \<longrightarrow>
            getReturnNodeJsonFromKeyValue (Some rows) testId ! i =
              \<lparr>json = fmap_of_list [(''_unitTest'',
                 UnitTestMetaData testId
                   (orElse (RawKeyValueInputItems.testRunName (rows ! i)) ''unnamed'')
                   (Obj fmempty))]\<rparr>)"
  using assms
  by (simp add: getReturnNodeJsonFromKeyValue_def keyValueItem_def Object_keys_def Let_def
      property_def)

text \<open>
  The theorem at a list of two entries: the first with an empty \<^verbatim>\<open>testRun\<close> object, the second
  with an empty list of rows.
\<close>

theorem keyValue_empty_testRun_witness:
  "keyValueData (testRun ([\<lparr>RawKeyValueInputItems.testRunName = Some ''A'',
         testRun = \<lparr>keyValueData = None\<rparr>\<rparr>,
       \<lparr>RawKeyValueInputItems.testRunName = None,
         testRun = \<lparr>keyValueData = Some []\<rparr>\<rparr>] ! 0)) = None \<and>
   getReturnNodeJsonFromKeyValue
     (Some [\<lparr>RawKeyValueInputItems.testRunName = Some ''A'',
              testRun = \<lparr>keyValueData = None\<rparr>\<rparr>,
            \<lparr>RawKeyValueInputItems.testRunName = None,
              testRun = \<lparr>keyValueData = Some []\<rparr>\<rparr>]) ''T1'' ! 0 = \<lparr>json = fmempty\<rparr> \<and>
   keyValueData (testRun ([\<lparr>RawKeyValueInputItems.testRunName = Some ''A'',
         testRun = \<lparr>keyValueData = None\<rparr>\<rparr>,
       \<lparr>RawKeyValueInputItems.testRunName = None,
         testRun = \<lparr>keyValueData = Some []\<rparr>\<rparr>] ! 1)) = Some [] \<and>
   getReturnNodeJsonFromKeyValue
     (Some [\<lparr>RawKeyValueInputItems.testRunName = Some ''A'',
              testRun = \<lparr>keyValueData = None\<rparr>\<rparr>,
            \<lparr>RawKeyValueInputItems.testRunName = None,
              testRun = \<lparr>keyValueData = Some []\<rparr>\<rparr>]) ''T1'' ! 1 =
     \<lparr>json = fmap_of_list
        [(''_unitTest'', UnitTestMetaData ''T1'' ''unnamed'' (Obj fmempty))]\<rparr>"
  using keyValue_empty_testRun [of 0
      "[\<lparr>RawKeyValueInputItems.testRunName = Some ''A'',
          testRun = \<lparr>keyValueData = None\<rparr>\<rparr>,
        \<lparr>RawKeyValueInputItems.testRunName = None,
          testRun = \<lparr>keyValueData = Some []\<rparr>\<rparr>]" "''T1''"]
    keyValue_empty_testRun [of 1
      "[\<lparr>RawKeyValueInputItems.testRunName = Some ''A'',
          testRun = \<lparr>keyValueData = None\<rparr>\<rparr>,
        \<lparr>RawKeyValueInputItems.testRunName = None,
          testRun = \<lparr>keyValueData = Some []\<rparr>\<rparr>]" "''T1''"]
  by (simp add: orElse_def)

text \<open>
  Claim C6. For every input list containing an entry whose \<^verbatim>\<open>jsonTestRun\<close> is not valid JSON,
  the JSON materializer raises the parse failure and propagates it to the caller unmodified,
  with no partial result: the call ends in the very error that the parser threw at the first
  such entry.
\<close>

theorem invalid_json_propagates:
  assumes "\<exists>item\<in>set entries. isl (JSON_parse (jsonTestRun item))"
  shows "\<exists>item e. find (\<lambda>item. isl (JSON_parse (jsonTestRun item))) entries = Some item \<and>
           JSON_parse (jsonTestRun item) = Inl e \<and>
           getReturnNodeJsonFromJson JSON_parse (Some entries) testId = Inl e"
proof -
  from assms have "find (\<lambda>item. isl (JSON_parse (jsonTestRun item))) entries \<noteq> None"
    by (auto simp: find_None_iff)
  then obtain item where
    found: "find (\<lambda>item. isl (JSON_parse (jsonTestRun item))) entries = Some item"
    by auto
  then have "isl (JSON_parse (jsonTestRun item))"
    by (auto simp: find_Some_iff)
  then obtain e where e: "JSON_parse (jsonTestRun item) = Inl e"
    by (cases "JSON_parse (jsonTestRun item)") auto
  have "find (\<lambda>item. isl (jsonItem JSON_parse testId item)) entries = Some item"
    using found by (simp add: isl_jsonItem)
  then have "mapThrowing (jsonItem JSON_parse testId) entries =
               Inl (projl (jsonItem JSON_parse testId item))"
    by (rule mapThrowing_first_error)
  then have "getReturnNodeJsonFromJson JSON_parse (Some entries) testId = Inl e"
    using e by (simp add: getReturnNodeJsonFromJson_def jsonItem_error)
  with found e show ?thesis by blast
qed

text \<open>The theorem at a valid entry followed by an invalid one.\<close>

theorem invalid_json_propagates_witness:
  "(\<exists>item\<in>set [\<lparr>testRunName = Some ''ok'', jsonTestRun = ''{\"a\":1}''\<rparr>,
                  \<lparr>testRunName = Some ''bad'', jsonTestRun = ''{a''\<rparr>].
      isl (exampleParse (jsonTestRun item))) \<and>
   getReturnNodeJsonFromJson exampleParse
     (Some [\<lparr>testRunName = Some ''ok'', jsonTestRun = ''{\"a\":1}''\<rparr>,
            \<lparr>testRunName = Some ''bad'', jsonTestRun = ''{a''\<rparr>]) ''T2'' =
     Inl (SyntaxError ''Unexpected token'')"
  using invalid_json_propagates [of "[\<lparr>testRunName = Some ''ok'', jsonTestRun = ''{\"a\":1}''\<rparr>,
            \<lparr>testRunName = Some ''bad'', jsonTestRun = ''{a''\<rparr>]" exampleParse "''T2''"]
  by (simp add: exampleParse_def)

text \<open>
  Claim C8. The JSON materializer applied to the single entry \<^verbatim>\<open>[{jsonTestRun:"{\"a\":1}"}]\<close>,
  with \<^verbatim>\<open>testRunName\<close> omitted and test id \<^verbatim>\<open>T2\<close>, returns one item whose \<^verbatim>\<open>_unitTest\<close> envelope
  has \<^verbatim>\<open>testRunName\<close> equal to \<^verbatim>\<open>unnamed\<close> and \<^verbatim>\<open>triggerInputData\<close> equal to the parsed object
  \<^verbatim>\<open>{a:1}\<close>. The hypothesis says what \<^verbatim>\<open>JSON.parse\<close> does on that text.
\<close>

theorem json_example:
  assumes "JSON_parse ''{\"a\":1}'' = Inr (Obj (fmap_of_list [(''a'', Num 1)]))"
  shows "\<exists>item.
           getReturnNodeJsonFromJson JSON_parse
             (Some [\<lparr>testRunName = None, jsonTestRun = ''{\"a\":1}''\<rparr>]) ''T2'' = Inr [item] \<and>
           optChain (property (json item) ''_unitTest'') ''testRunName'' = Str ''unnamed'' \<and>
           optChain (property (json item) ''_unitTest'') ''triggerInputData'' =
             Obj (fmap_of_list [(''a'', Num 1)]) \<and>
           optChain (property (json item) ''_unitTest'') ''testId'' = Str ''T2'' \<and>
           property (json item) ''a'' = Num 1"
  using assms
  by (simp add: getReturnNodeJsonFromJson_def jsonItem_def UnitTestMetaData_def orElse_def
      property_def Let_def)

theorem json_example_witness:
  "exampleParse ''{\"a\":1}'' = Inr (Obj (fmap_of_list [(''a'', Num 1)])) \<and>
   (\<exists>item.
      getReturnNodeJsonFromJson exampleParse
        (Some [\<lparr>testRunName = None, jsonTestRun = ''{\"a\":1}''\<rparr>]) ''T2'' = Inr [item] \<and>
      optChain (property (json item) ''_unitTest'') ''testRunName'' = Str ''unnamed'' \<and>
      optChain (property (json item) ''_unitTest'') ''triggerInputData'' =
        Obj (fmap_of_list [(''a'', Num 1)]) \<and>
      optChain (property (json item) ''_unitTest'') ''testId'' = Str ''T2'' \<and>
      property (json item) ''a'' = Num 1)"
  using json_example [of exampleParse]
  by (simp add: exampleParse_def)

text \<open>
  Claim C10 says that, in both materializers, a test run whose \<^verbatim>\<open>testRunName\<close> is present but
  equal to the empty string is stamped with \<^verbatim>\<open>testRunName\<close> \<^verbatim>\<open>unnamed\<close> in its metadata envelope.
  As stated for every test run, it fails in the key/value materializer: an entry whose
  \<^verbatim>\<open>testRun\<close> object is empty leaves by the guard on \<^verbatim>\<open>Object.keys\<close>, before the name is read, and
  its item \<^verbatim>\<open>{json:{}}\<close> has no envelope and no \<^verbatim>\<open>unnamed\<close>.
\<close>

theorem empty_testRunName_without_envelope:
  "RawKeyValueInputItems.testRunName
     \<lparr>RawKeyValueInputItems.testRunName = Some '''', testRun = \<lparr>keyValueData = None\<rparr>\<rparr> =
     Some '''' \<and>
   getReturnNodeJsonFromKeyValue
     (Some [\<lparr>RawKeyValueInputItems.testRunName = Some '''',
              testRun = \<lparr>keyValueData = None\<rparr>\<rparr>]) ''T1'' = [\<lparr>json = fmempty\<rparr>] \<and>
   property (json (getReturnNodeJsonFromKeyValue
     (Some [\<lparr>RawKeyValueInputItems.testRunName = Some '''',
              testRun = \<lparr>keyValueData = None\<rparr>\<rparr>]) ''T1'' ! 0)) ''_unitTest'' = Undefined \<and>
   optChain (property (json (getReturnNodeJsonFromKeyValue
     (Some [\<lparr>RawKeyValueInputItems.testRunName = Some '''',
              testRun = \<lparr>keyValueData = None\<rparr>\<rparr>]) ''T1'' ! 0)) ''_unitTest'')
     ''testRunName'' \<noteq> Str ''unnamed''"
  by (simp add: getReturnNodeJsonFromKeyValue_def keyValueItem_def Object_keys_def
      property_def)

text \<open>
  Claim C10, amended. A test run whose \<^verbatim>\<open>testRunName\<close> is present but equal to the empty string
  is stamped with \<^verbatim>\<open>testRunName\<close> \<^verbatim>\<open>unnamed\<close> in its metadata envelope, exactly as if the name had
  been omitted: by the key/value materializer for every entry whose \<^verbatim>\<open>testRun\<close> object has its
  \<^verbatim>\<open>keyValueData\<close>, and by the JSON materializer for every entry of a list whose texts all
  parse. Each call returns one item per entry, the envelope of that entry reads \<^verbatim>\<open>unnamed\<close>,
  and the call with the name omitted returns the same items.
\<close>

theorem empty_testRunName_is_unnamed:
  assumes "i < length rows"
      and "RawKeyValueInputItems.testRunName (rows ! i) = Some ''''"
      and "keyValueData (testRun (rows ! i)) = Some kvs"
      and "j < length entries"
      and "testRunName (entries ! j) = Some ''''"
      and "\<forall>entry\<in>set entries. \<not> isl (JSON_parse (jsonTestRun entry))"
  shows "length (getReturnNodeJsonFromKeyValue (Some rows) testId) = length rows \<and>
         optChain (property (json (getReturnNodeJsonFromKeyValue (Some rows) testId ! i))
           ''_unitTest'') ''testRunName'' = Str ''unnamed'' \<and>
         getReturnNodeJsonFromKeyValue
           (Some (rows[i := (rows ! i)\<lparr>RawKeyValueInputItems.testRunName := None\<rparr>])) testId =
         getReturnNodeJsonFromKeyValue (Some rows) testId \<and>
         (\<exists>items.
            getReturnNodeJsonFromJson JSON_parse (Some entries) testId = Inr items \<and>
            length items = length entries \<and>
            optChain (property (json (items ! j)) ''_unitTest'') ''testRunName'' =
              Str ''unnamed'' \<and>
            getReturnNodeJsonFromJson JSON_parse
              (Some (entries[j := (entries ! j)\<lparr>testRunName := None\<rparr>])) testId = Inr items)"
proof (intro conjI)
  show "length (getReturnNodeJsonFromKeyValue (Some rows) testId) = length rows"
    by (simp add: getReturnNodeJsonFromKeyValue_def)
next
  have "json (keyValueItem testId (rows ! i)) =
      fmupd ''_unitTest''
        (UnitTestMetaData testId ''unnamed''
           (Obj (foldl (\<lambda>jsonObject (key, val). assign jsonObject key val) fmempty kvs)))
        (foldl (\<lambda>jsonObject (key, val). assign jsonObject key val) fmempty kvs)"
    using assms(2,3) by (simp add: keyValueItem_def Object_keys_def orElse_def Let_def)
  then show "optChain (property (json (getReturnNodeJsonFromKeyValue (Some rows) testId ! i))
              ''_unitTest'') ''testRunName'' = Str ''unnamed''"
    using assms(1) by (simp add: getReturnNodeJsonFromKeyValue_def unitTest_testRunName)
next
  show "getReturnNodeJsonFromKeyValue
           (Some (rows[i := (rows ! i)\<lparr>RawKeyValueInputItems.testRunName := None\<rparr>])) testId =
         getReturnNodeJsonFromKeyValue (Some rows) testId"
    using assms(1,2)
    by (simp add: getReturnNodeJsonFromKeyValue_def map_update keyValueItem_empty_name
        list_update_same_conv)
next
  have "\<forall>entry\<in>set entries. \<not> isl (jsonItem JSON_parse testId entry)"
    using assms(6) by (simp add: isl_jsonItem)
  then obtain items where
    items: "mapThrowing (jsonItem JSON_parse testId) entries = Inr items"
      "length items = length entries"
    using mapThrowing_all_Inr by blast
  have item: "jsonItem JSON_parse testId (entries ! j) = Inr (items ! j)"
    using items(1) assms(4) by (rule mapThrowing_Inr_nth)
  have "\<exists>parsedJson. json (items ! j) =
      fmupd ''_unitTest'' (UnitTestMetaData testId ''unnamed'' parsedJson) (spread parsedJson)"
  proof (cases "JSON_parse (jsonTestRun (entries ! j))")
    case (Inl e)
    with item show ?thesis by (simp add: jsonItem_def)
  next
    case (Inr parsedJson)
    with item assms(5) have "items ! j =
        \<lparr>json = fmupd ''_unitTest'' (UnitTestMetaData testId ''unnamed'' parsedJson)
                   (spread parsedJson)\<rparr>"
      by (simp add: jsonItem_def orElse_def)
    then show ?thesis by auto
  qed
  then have stamped: "optChain (property (json (items ! j)) ''_unitTest'') ''testRunName'' =
      Str ''unnamed''"
    by (auto simp: unitTest_testRunName)
  have result: "getReturnNodeJsonFromJson JSON_parse (Some entries) testId = Inr items"
    using items(1) by (simp add: getReturnNodeJsonFromJson_def)
  have "getReturnNodeJsonFromJson JSON_parse
           (Some (entries[j := (entries ! j)\<lparr>testRunName := None\<rparr>])) testId =
         getReturnNodeJsonFromJson JSON_parse (Some entries) testId"
    using assms(4,5)
    by (simp add: getReturnNodeJsonFromJson_def mapThrowing_update jsonItem_empty_name)
  with result items(2) stamped
  show "\<exists>items.
            getReturnNodeJsonFromJson JSON_parse (Some entries) testId = Inr items \<and>
            length items = length entries \<and>
            optChain (property (json (items ! j)) ''_unitTest'') ''testRunName'' =
              Str ''unnamed'' \<and>
            getReturnNodeJsonFromJson JSON_parse
              (Some (entries[j := (entries ! j)\<lparr>testRunName := None\<rparr>])) testId = Inr items"
    by auto
qed

text \<open>
  The theorem at one key/value row and one JSON entry, each named by the empty string, with
  the items the two calls return written out.
\<close>

theorem empty_testRunName_is_unnamed_witness:
  "(0::nat) < length [\<lparr>RawKeyValueInputItems.testRunName = Some '''',
        testRun = \<lparr>keyValueData = Some [(''x'', ''1'')]\<rparr>\<rparr>] \<and>
   RawKeyValueInputItems.testRunName ([\<lparr>RawKeyValueInputItems.testRunName = Some '''',
        testRun = \<lparr>keyValueData = Some [(''x'', ''1'')]\<rparr>\<rparr>] ! 0) = Some '''' \<and>
   keyValueData (testRun ([\<lparr>RawKeyValueInputItems.testRunName = Some '''',
        testRun = \<lparr>keyValueData = Some [(''x'', ''1'')]\<rparr>\<rparr>] ! 0)) = Some [(''x'', ''1'')] \<and>
   (0::nat) < length [\<lparr>testRunName = Some '''', jsonTestRun = ''{\"a\":1}''\<rparr>] \<and>
   testRunName ([\<lparr>testRunName = Some '''', jsonTestRun = ''{\"a\":1}''\<rparr>] ! 0) = Some '''' \<and>
   \<not> isl (exampleParse ''{\"a\":1}'') \<and>
   getReturnNodeJsonFromKeyValue
     (Some [\<lparr>RawKeyValueInputItems.testRunName = Some '''',
              testRun = \<lparr>keyValueData = Some [(''x'', ''1'')]\<rparr>\<rparr>]) ''T1'' =
     [\<lparr>json = fmap_of_list
         [(''x'', Str ''1''),
          (''_unitTest'', Obj (fmap_of_list
             [(''testId'', Str ''T1''),
              (''testRunName'', Str ''unnamed''),
              (''triggerInputData'', Obj (fmap_of_list [(''x'', Str ''1'')]))]))]\<rparr>] \<and>
   optChain (property (json (getReturnNodeJsonFromKeyValue
       (Some [\<lparr>RawKeyValueInputItems.testRunName = Some '''',
                testRun = \<lparr>keyValueData = Some [(''x'', ''1'')]\<rparr>\<rparr>]) ''T1'' ! 0))
     ''_unitTest'') ''testRunName'' = Str ''unnamed'' \<and>
   getReturnNodeJsonFromJson exampleParse
     (Some [\<lparr>testRunName = Some '''', jsonTestRun = ''{\"a\":1}''\<rparr>]) ''T1'' =
     Inr [\<lparr>json = fmap_of_list
         [(''a'', Num 1),
          (''_unitTest'', Obj (fmap_of_list
             [(''testId'', Str ''T1''),
              (''testRunName'', Str ''unnamed''),
              (''triggerInputData'', Obj (fmap_of_list [(''a'', Num 1)]))]))]\<rparr>] \<and>
   getReturnNodeJsonFromJson exampleParse
     (Some [\<lparr>testRunName = None, jsonTestRun = ''{\"a\":1}''\<rparr>]) ''T1'' =
     getReturnNodeJsonFromJson exampleParse
       (Some [\<lparr>testRunName = Some '''', jsonTestRun = ''{\"a\":1}''\<rparr>]) ''T1''"
proof -
  have kv: "getReturnNodeJsonFromKeyValue
     (Some [\<lparr>RawKeyValueInputItems.testRunName = Some '''',
              testRun = \<lparr>keyValueData = Some [(''x'', ''1'')]\<rparr>\<rparr>]) ''T1'' =
     [\<lparr>json = fmap_of_list
         [(''x'', Str ''1''),
          (''_unitTest'', Obj (fmap_of_list
             [(''testId'', Str ''T1''),
              (''testRunName'', Str ''unnamed''),
              (''triggerInputData'', Obj (fmap_of_list [(''x'', Str ''1'')]))]))]\<rparr>]"
    by (simp add: getReturnNodeJsonFromKeyValue_def keyValueItem_def Object_keys_def assign_def
        UnitTestMetaData_def orElse_def Let_def fmupd_twist)
  have js: "getReturnNodeJsonFromJson exampleParse
     (Some [\<lparr>testRunName = Some '''', jsonTestRun = ''{\"a\":1}''\<rparr>]) ''T1'' =
     Inr [\<lparr>json = fmap_of_list
         [(''a'', Num 1),
          (''_unitTest'', Obj (fmap_of_list
             [(''testId'', Str ''T1''),
              (''testRunName'', Str ''unnamed''),
              (''triggerInputData'', Obj (fmap_of_list [(''a'', Num 1)]))]))]\<rparr>]"
    by (simp add: getReturnNodeJsonFromJson_def jsonItem_def exampleParse_def
        UnitTestMetaData_def orElse_def Let_def fmupd_twist)
  have parses: "\<not> isl (exampleParse ''{\"a\":1}'')"
    by (simp add: exampleParse_def)
  from parses empty_testRunName_is_unnamed [of 0
      "[\<lparr>RawKeyValueInputItems.testRunName = Some '''',
         testRun = \<lparr>keyValueData = Some [(''x'', ''1'')]\<rparr>\<rparr>]" "[(''x'', ''1'')]"
      0 "[\<lparr>testRunName = Some '''', jsonTestRun = ''{\"a\":1}''\<rparr>]" exampleParse "''T1''"]
  have used: "optChain (property (json (getReturnNodeJsonFromKeyValue
       (Some [\<lparr>RawKeyValueInputItems.testRunName = Some '''',
                testRun = \<lparr>keyValueData = Some [(''x'', ''1'')]\<rparr>\<rparr>]) ''T1'' ! 0))
     ''_unitTest'') ''testRunName'' = Str ''unnamed'' \<and>
   getReturnNodeJsonFromJson exampleParse
     (Some [\<lparr>testRunName = None, jsonTestRun = ''{\"a\":1}''\<rparr>]) ''T1'' =
     getReturnNodeJsonFromJson exampleParse
       (Some [\<lparr>testRunName = Some '''', jsonTestRun = ''{\"a\":1}''\<rparr>]) ''T1''"
    by auto
  from kv js parses used show ?thesis by simp
qed

section \<open>Trigger correlator: the claims\<close>

text \<open>
  Claim C3. For every call to the trigger correlator where no ancestor trigger's envelope
  has the target test id, the case where every evaluation throws included, the call fails
  with the operational error \<^verbatim>\<open>No Test Trigger Node with matching ID found\<close>, which carries
  the current item index. The failures of the evaluations are swallowed: no call ends in
  any other error.
\<close>

theorem no_matching_trigger_fails:
  "((\<forall>triggerNode\<in>set (testTriggerNodes n). \<not> envelopeMatches n testId itemIndex triggerNode) \<longrightarrow>
      getTriggerTestMetaData n testId itemIndex =
        Inl (NodeOperationError (getNode n)
               ''No Test Trigger Node with matching ID found'' itemIndex)) \<and>
   ((\<forall>triggerNode\<in>set (testTriggerNodes n).
        isl (evaluateExpression n (unitTestExpression triggerNode) itemIndex)) \<longrightarrow>
      getTriggerTestMetaData n testId itemIndex =
        Inl (NodeOperationError (getNode n)
               ''No Test Trigger Node with matching ID found'' itemIndex)) \<and>
   (\<forall>e. getTriggerTestMetaData n testId itemIndex = Inl e \<longrightarrow>
      e = NodeOperationError (getNode n)
            ''No Test Trigger Node with matching ID found'' itemIndex)"
proof (intro conjI impI allI)
  assume none: "\<forall>triggerNode\<in>set (testTriggerNodes n).
                  \<not> envelopeMatches n testId itemIndex triggerNode"
  have "fst (scanTriggers n testId itemIndex (testTriggerNodes n) (None, Undefined)) = None"
    using none by (rule scanTriggers_no_match)
  then show "getTriggerTestMetaData n testId itemIndex =
        Inl (NodeOperationError (getNode n)
               ''No Test Trigger Node with matching ID found'' itemIndex)"
    by (cases "scanTriggers n testId itemIndex (testTriggerNodes n) (None, Undefined)")
      (simp add: getTriggerTestMetaData_def)
next
  assume thrown: "\<forall>triggerNode\<in>set (testTriggerNodes n).
                    isl (evaluateExpression n (unitTestExpression triggerNode) itemIndex)"
  have "\<forall>triggerNode\<in>set (testTriggerNodes n).
          \<not> envelopeMatches n testId itemIndex triggerNode"
    using thrown by (auto simp: envelopeMatches_def split: sum.splits)
  then have "fst (scanTriggers n testId itemIndex (testTriggerNodes n) (None, Undefined)) = None"
    by (rule scanTriggers_no_match)
  then show "getTriggerTestMetaData n testId itemIndex =
        Inl (NodeOperationError (getNode n)
               ''No Test Trigger Node with matching ID found'' itemIndex)"
    by (cases "scanTriggers n testId itemIndex (testTriggerNodes n) (None, Undefined)")
      (simp add: getTriggerTestMetaData_def)
next
  fix e
  assume "getTriggerTestMetaData n testId itemIndex = Inl e"
  then show "e = NodeOperationError (getNode n)
            ''No Test Trigger Node with matching ID found'' itemIndex"
    by (cases "scanTriggers n testId itemIndex (testTriggerNodes n) (None, Undefined)")
      (simp add: getTriggerTestMetaData_def split: if_splits)
qed

text \<open>
  The theorem at two calls with item index 3: the target \<^verbatim>\<open>V\<close> against triggers whose envelopes
  carry \<^verbatim>\<open>T\<close> and \<^verbatim>\<open>U\<close>, and the target \<^verbatim>\<open>T\<close> when every evaluation throws.
\<close>

theorem no_matching_trigger_fails_witness:
  "testTriggerNodes twoTriggers = [triggerA, triggerB] \<and>
   \<not> envelopeMatches twoTriggers ''V'' 3 triggerA \<and>
   \<not> envelopeMatches twoTriggers ''V'' 3 triggerB \<and>
   getTriggerTestMetaData twoTriggers ''V'' 3 =
     Inl (NodeOperationError (getNode twoTriggers)
            ''No Test Trigger Node with matching ID found'' 3) \<and>
   testTriggerNodes noTriggerRan = [triggerA, triggerB] \<and>
   isl (evaluateExpression noTriggerRan (unitTestExpression triggerA) 3) \<and>
   isl (evaluateExpression noTriggerRan (unitTestExpression triggerB) 3) \<and>
   getTriggerTestMetaData noTriggerRan ''T'' 3 =
     Inl (NodeOperationError (getNode noTriggerRan)
            ''No Test Trigger Node with matching ID found'' 3)"
proof -
  have noneA: "\<not> envelopeMatches twoTriggers ''V'' 3 triggerA"
    by (simp add: envelopeMatches_def twoTriggers_A property_def)
  have noneB: "\<not> envelopeMatches twoTriggers ''V'' 3 triggerB"
    by (simp add: envelopeMatches_def twoTriggers_B property_def)
  have thrownA: "isl (evaluateExpression noTriggerRan (unitTestExpression triggerA) 3)"
    by (simp add: noTriggerRan_def)
  have thrownB: "isl (evaluateExpression noTriggerRan (unitTestExpression triggerB) 3)"
    by (simp add: noTriggerRan_def)
  have none: "\<forall>triggerNode\<in>set (testTriggerNodes twoTriggers).
                \<not> envelopeMatches twoTriggers ''V'' 3 triggerNode"
    using noneA noneB by (simp add: twoTriggers_nodes)
  have thrown: "\<forall>triggerNode\<in>set (testTriggerNodes noTriggerRan).
                  isl (evaluateExpression noTriggerRan (unitTestExpression triggerNode) 3)"
    using thrownA thrownB by (simp add: noTriggerRan_nodes)
  from none no_matching_trigger_fails [of twoTriggers "''V''" 3]
  have first: "getTriggerTestMetaData twoTriggers ''V'' 3 =
     Inl (NodeOperationError (getNode twoTriggers)
            ''No Test Trigger Node with matching ID found'' 3)"
    by blast
  from thrown no_matching_trigger_fails [of noTriggerRan "''T''" 3]
  have second: "getTriggerTestMetaData noTriggerRan ''T'' 3 =
     Inl (NodeOperationError (getNode noTriggerRan)
            ''No Test Trigger Node with matching ID found'' 3)"
    by blast
  from noneA noneB first thrownA thrownB second twoTriggers_nodes noTriggerRan_nodes
  show ?thesis by blast
qed

text \<open>
  Claim C1 says that, when some ancestor trigger's envelope has the target test id, the call
  succeeds and returns the envelope of a matching ancestor, never that of an ancestor with
  another id. The loop assigns \<^verbatim>\<open>triggerMetaData\<close> before it compares the id, so the variable
  holds the last envelope evaluated, matching or not. With target \<^verbatim>\<open>T\<close>, trigger \<^verbatim>\<open>A\<close> matches
  and trigger \<^verbatim>\<open>B\<close> is scanned after it: in \<open>twoTriggers\<close> the call returns the envelope of
  \<^verbatim>\<open>B\<close>, whose id is \<^verbatim>\<open>U\<close>; in \<open>secondWithoutEnvelope\<close>, where \<^verbatim>\<open>B\<close> evaluates to \<^verbatim>\<open>undefined\<close>,
  the call fails although \<^verbatim>\<open>A\<close> matches.
\<close>

theorem correlator_returns_other_envelope:
  "triggerA \<in> set (testTriggerNodes twoTriggers) \<and>
   envelopeMatches twoTriggers ''T'' 0 triggerA \<and>
   evaluateExpression twoTriggers (unitTestExpression triggerB) 0 =
     Inr (Obj (fmap_of_list [(''testId'', Str ''U'')])) \<and>
   getTriggerTestMetaData twoTriggers ''T'' 0 =
     Inr (Obj (fmap_of_list [(''testId'', Str ''U'')])) \<and>
   triggerA \<in> set (testTriggerNodes secondWithoutEnvelope) \<and>
   envelopeMatches secondWithoutEnvelope ''T'' 0 triggerA \<and>
   getTriggerTestMetaData secondWithoutEnvelope ''T'' 0 =
     Inl (NodeOperationError (getNode secondWithoutEnvelope)
            ''No Test Trigger Node with matching ID found'' 0)"
  by (simp add: getTriggerTestMetaData_def twoTriggers_nodes twoTriggers_A twoTriggers_B
      secondWithoutEnvelope_nodes secondWithoutEnvelope_A secondWithoutEnvelope_B
      envelopeMatches_def property_def)

end
